theory Spec2Isabelle
  imports Main "HOL-Library.Sublist"
begin

section \<open>JavaScript values and built-ins used by the server\<close>

text \<open>
  A JavaScript string is modelled as a \<^typ>\<open>string\<close>: the sequence of its characters, a
  character outside ASCII being the bytes of its UTF-8 encoding. All the tokens the server
  searches for are ASCII.

  The ticket fields are a \<^verbatim>\<open>Record<string, string>\<close>: the map of the object's own keys to
  their strings. The source's variable \<^verbatim>\<open>fields\<close> is written \<open>input\<close> below. Reading
  one of the names \<^verbatim>\<open>name\<close>, \<^verbatim>\<open>issue\<close>, \<^verbatim>\<open>priority\<close>, \<^verbatim>\<open>category\<close> and \<^verbatim>\<open>email\<close>
  gives the own value or \<^verbatim>\<open>undefined\<close> (\<open>None\<close>): none of them is a property of
  \<^verbatim>\<open>Object.prototype\<close>. Reading a key that is computed, \<^verbatim>\<open>fields[field.key]\<close>, is
  \<open>Get\<close> below.
\<close>

type_synonym fields = "string \<rightharpoonup> string"

text \<open>Truthiness of a value that is a string or \<^verbatim>\<open>undefined\<close>: only \<^verbatim>\<open>undefined\<close> and
  the empty string are falsy.\<close>

definition truthy :: "string option \<Rightarrow> bool" where
  "truthy v = (case v of None \<Rightarrow> False | Some s \<Rightarrow> s \<noteq> [])"

text \<open>\<^verbatim>\<open>ToString\<close>, as a template literal and \<^verbatim>\<open>String.prototype.replace\<close> apply it to
  their arguments.\<close>

definition ToString :: "string option \<Rightarrow> string" where
  "ToString v = (case v of None \<Rightarrow> ''undefined'' | Some s \<Rightarrow> s)"

text \<open>
  \<^verbatim>\<open>fields[key]\<close> on the ticket object, a plain object: the own value if the object has
  the key, otherwise the property of that name that the object inherits from
  \<^verbatim>\<open>Object.prototype\<close>, otherwise \<^verbatim>\<open>undefined\<close>. The inherited properties are functions,
  and for \<^verbatim>\<open>__proto__\<close> the prototype object itself.
\<close>

definition Object_prototype_keys :: "string list" where
  "Object_prototype_keys =
     [''constructor'', ''__defineGetter__'', ''__defineSetter__'', ''hasOwnProperty'',
      ''__lookupGetter__'', ''__lookupSetter__'', ''isPrototypeOf'', ''propertyIsEnumerable'',
      ''toString'', ''valueOf'', ''__proto__'', ''toLocaleString'']"

datatype PropertyValue = OwnString string | Inherited string | UndefinedValue

definition Get :: "fields \<Rightarrow> string \<Rightarrow> PropertyValue" where
  "Get input k =
     (case input k of
        Some v \<Rightarrow> OwnString v
      | None \<Rightarrow> if k \<in> set Object_prototype_keys then Inherited k else UndefinedValue)"

text \<open>Truthiness of a property value: a function and an object are truthy.\<close>

definition ToBoolean :: "PropertyValue \<Rightarrow> bool" where
  "ToBoolean v =
     (case v of OwnString s \<Rightarrow> s \<noteq> [] | Inherited k \<Rightarrow> True | UndefinedValue \<Rightarrow> False)"

text \<open>A property value inside a template literal. A built-in function is rendered by
  Node as \<^verbatim>\<open>function name() { [native code] }\<close>, where the name of
  \<^verbatim>\<open>Object.prototype.constructor\<close> is \<^verbatim>\<open>Object\<close>; the prototype object is rendered as
  \<^verbatim>\<open>[object Object]\<close>.\<close>

definition TemplateString :: "PropertyValue \<Rightarrow> string" where
  "TemplateString v =
     (case v of
        OwnString s \<Rightarrow> s
      | Inherited k \<Rightarrow>
          if k = ''__proto__'' then ''[object Object]''
          else ''function '' @ (if k = ''constructor'' then ''Object'' else k)
                 @ ''() { [native code] }''
      | UndefinedValue \<Rightarrow> ''undefined'')"

text \<open>\<^verbatim>\<open>StringIndexOf(string, searchValue, 0)\<close>: the least index at which \<open>searchValue\<close>
  occurs in \<open>string\<close>, if any.\<close>

fun StringIndexOf :: "string \<Rightarrow> string \<Rightarrow> nat option" where
  "StringIndexOf [] t = (if t = [] then Some 0 else None)"
| "StringIndexOf (c # cs) t =
     (if prefix t (c # cs) then Some 0 else map_option Suc (StringIndexOf cs t))"

definition js_includes :: "string \<Rightarrow> string \<Rightarrow> bool" where
  "js_includes s t = (StringIndexOf s t \<noteq> None)"

text \<open>
  \<^verbatim>\<open>GetSubstitution(matched, str, position, captures, namedCaptures, replacementTemplate)\<close>
  for a string pattern: there are no captures and no named captures, so \<^verbatim>\<open>$n\<close>, \<^verbatim>\<open>$nn\<close>
  and \<^verbatim>\<open>$<\<close> stand for themselves, while \<^verbatim>\<open>$$\<close>, \<^verbatim>\<open>$`\<close>, \<^verbatim>\<open>$&\<close> and \<^verbatim>\<open>$'\<close> are
  expanded.
\<close>

fun GetSubstitution :: "string \<Rightarrow> string \<Rightarrow> nat \<Rightarrow> string \<Rightarrow> string" where
  "GetSubstitution matched str position [] = []"
| "GetSubstitution matched str position [c] = [c]"
| "GetSubstitution matched str position (c # d # rest) =
     (if c = CHR ''$'' \<and> d = CHR ''$'' then
        CHR ''$'' # GetSubstitution matched str position rest
      else if c = CHR ''$'' \<and> d = CHR ''`'' then
        take position str @ GetSubstitution matched str position rest
      else if c = CHR ''$'' \<and> d = CHR ''&'' then
        matched @ GetSubstitution matched str position rest
      else if c = CHR ''$'' \<and> d = CHR 0x27 then
        drop (min (position + length matched) (length str)) str
          @ GetSubstitution matched str position rest
      else c # GetSubstitution matched str position (d # rest))"

text \<open>\<^verbatim>\<open>String.prototype.replace(searchValue, replaceValue)\<close> with a string pattern and a
  string replacement: only the first occurrence is replaced.\<close>

definition replace :: "string \<Rightarrow> string \<Rightarrow> string \<Rightarrow> string" where
  "replace s searchString replaceValue =
     (case StringIndexOf s searchString of
        None \<Rightarrow> s
      | Some position \<Rightarrow>
          take position s
            @ GetSubstitution searchString s position replaceValue
            @ drop (position + length searchString) s)"

text \<open>\<^verbatim>\<open>Array.prototype.join(separator)\<close> on an array of strings.\<close>

fun join :: "string \<Rightarrow> string list \<Rightarrow> string" where
  "join sep [] = []"
| "join sep [x] = x"
| "join sep (x # y # ys) = x @ sep @ join sep (y # ys)"

text \<open>
  A \<^verbatim>\<open>number\<close> as \<^verbatim>\<open>parseInt\<close> returns it: \<^verbatim>\<open>NaN\<close> or an integer (exact below
  \<open>2^53\<close>, which covers every port number).
\<close>

datatype js_number = NaN | Num int

text \<open>The white space that \<^verbatim>\<open>parseInt\<close> skips (\<^verbatim>\<open>WhiteSpace\<close> and \<^verbatim>\<open>LineTerminator\<close>),
  each character as its UTF-8 bytes.\<close>

definition StrWhiteSpaceChar :: "string list" where
  "StrWhiteSpaceChar =
     [[CHR 0x09], [CHR 0x0A], [CHR 0x0B], [CHR 0x0C], [CHR 0x0D], [CHR 0x20],
      [CHR 0xC2, CHR 0xA0], [CHR 0xE1, CHR 0x9A, CHR 0x80],
      [CHR 0xE2, CHR 0x80, CHR 0x80], [CHR 0xE2, CHR 0x80, CHR 0x81],
      [CHR 0xE2, CHR 0x80, CHR 0x82], [CHR 0xE2, CHR 0x80, CHR 0x83],
      [CHR 0xE2, CHR 0x80, CHR 0x84], [CHR 0xE2, CHR 0x80, CHR 0x85],
      [CHR 0xE2, CHR 0x80, CHR 0x86], [CHR 0xE2, CHR 0x80, CHR 0x87],
      [CHR 0xE2, CHR 0x80, CHR 0x88], [CHR 0xE2, CHR 0x80, CHR 0x89],
      [CHR 0xE2, CHR 0x80, CHR 0x8A], [CHR 0xE2, CHR 0x80, CHR 0xA8],
      [CHR 0xE2, CHR 0x80, CHR 0xA9], [CHR 0xE2, CHR 0x80, CHR 0xAF],
      [CHR 0xE2, CHR 0x81, CHR 0x9F], [CHR 0xE3, CHR 0x80, CHR 0x80],
      [CHR 0xEF, CHR 0xBB, CHR 0xBF]]"

function trimStart :: "string \<Rightarrow> string" where
  "trimStart s =
     (case find (\<lambda>ws. prefix ws s) StrWhiteSpaceChar of
        None \<Rightarrow> s
      | Some ws \<Rightarrow> if length ws \<le> length s \<and> ws \<noteq> [] then trimStart (drop (length ws) s) else s)"
  by pat_completeness auto
termination
proof (relation "measure length", goal_cases)
  case 1
  show ?case by simp
next
  case (2 s ws)
  then show ?case by (cases ws; cases s; simp)
qed

definition digit_value :: "char \<Rightarrow> int option" where
  "digit_value c =
     (let n = (of_char c :: nat)
      in if 48 \<le> n \<and> n \<le> 57 then Some (int n - 48) else None)"

fun parse_digits :: "int option \<Rightarrow> string \<Rightarrow> int option" where
  "parse_digits acc [] = acc"
| "parse_digits acc (c # cs) =
     (case digit_value c of
        None \<Rightarrow> acc
      | Some d \<Rightarrow> parse_digits (Some (10 * (case acc of None \<Rightarrow> 0 | Some a \<Rightarrow> a) + d)) cs)"

text \<open>\<^verbatim>\<open>parseInt(string, 10)\<close>: leading white space, an optional sign, then the longest
  run of decimal digits; \<^verbatim>\<open>NaN\<close> when there is no digit.\<close>

definition parseInt10 :: "string \<Rightarrow> js_number" where
  "parseInt10 inputString =
     (let S = trimStart inputString;
          sign = (case S of c # _ \<Rightarrow> if c = CHR ''-'' then - 1 else 1 | [] \<Rightarrow> 1);
          S = (case S of c # cs \<Rightarrow> if c = CHR ''+'' \<or> c = CHR ''-'' then cs else S | [] \<Rightarrow> S)
      in case parse_digits None S of
           None \<Rightarrow> NaN
         | Some mathInt \<Rightarrow> Num (sign * mathInt))"

section \<open>Configuration (config.ts)\<close>

record SmtpAuth =
  user :: string
  pass :: string

record SmtpConfig =
  host :: string
  port :: js_number
  secure :: bool
  auth :: SmtpAuth

record BrandConfig =
  name :: string
  primaryColor :: string
  secondaryColor :: string
  logoUrl :: "string option"
  tagline :: string

datatype FieldType = Text | Email | Tel | Textarea | Select

record FieldConfig =
  key :: string
  label :: string
  type :: FieldType
  placeholder :: string
  required :: bool
  options :: "string list option"

record AppConfig =
  brand :: BrandConfig
  smtp :: SmtpConfig
  supportEmail :: string
  emailSubjectTemplate :: string
  customFields :: "FieldConfig list"
  priorities :: "string list"
  categories :: "string list"

text \<open>The variables of \<^verbatim>\<open>process.env\<close> that the default configuration reads; \<open>None\<close> is
  an unset variable.\<close>

record ProcessEnv =
  SMTP_HOST :: "string option"
  SMTP_PORT :: "string option"
  SMTP_SECURE :: "string option"
  SMTP_USER :: "string option"
  SMTP_PASS :: "string option"
  SUPPORT_EMAIL :: "string option"

text \<open>\<^verbatim>\<open>a ?? b\<close> on a value that is \<^verbatim>\<open>undefined\<close> or of the declared type.\<close>

definition nullish :: "'a option \<Rightarrow> 'a \<Rightarrow> 'a" where
  "nullish a b = (case a of None \<Rightarrow> b | Some v \<Rightarrow> v)"

definition defaultConfig :: "ProcessEnv \<Rightarrow> AppConfig" where
  "defaultConfig env =
     \<lparr> brand =
         \<lparr> name = ''Customer Support'',
           primaryColor = ''#2563eb'',
           secondaryColor = ''#1e40af'',
           logoUrl = None,
           tagline = ''We'' @ [CHR 0x27] @ ''re here to help'' \<rparr>,
       smtp =
         \<lparr> host = nullish (SMTP_HOST env) ''smtp.gmail.com'',
           port = parseInt10 (nullish (SMTP_PORT env) ''587''),
           secure = (SMTP_SECURE env = Some ''true''),
           auth =
             \<lparr> user = nullish (SMTP_USER env) [],
               pass = nullish (SMTP_PASS env) [] \<rparr> \<rparr>,
       supportEmail = nullish (SUPPORT_EMAIL env) ''support@example.com'',
       emailSubjectTemplate = ''Support Request from {{name}}: {{issue}}'',
       customFields =
         [\<lparr> key = ''email'',
            label = ''Email Address'',
            type = Email,
            placeholder = ''you@example.com'',
            required = False,
            options = None \<rparr>],
       priorities = [''Low'', ''Medium'', ''High'', ''Urgent''],
       categories =
         [''General Inquiry'', ''Technical Support'', ''Billing'', ''Feature Request'',
          ''Bug Report''] \<rparr>"

text \<open>
  A partial override. A key of an override object is absent, present with the value
  \<^verbatim>\<open>undefined\<close>, or present with a value of its declared type
  (\<^verbatim>\<open>Partial<AppConfig>\<close> admits \<^verbatim>\<open>{ supportEmail: undefined }\<close>); the nested objects
  may be partial too, as in the documented call
  \<^verbatim>\<open>createServer({ brand: { name: "My Company Support" }, ... })\<close>.
\<close>

datatype 'a optional_key = Absent | Undefined | Value 'a

record SmtpAuthOverride =
  user_override :: "string optional_key"
  pass_override :: "string optional_key"

record SmtpOverride =
  host_override :: "string optional_key"
  port_override :: "js_number optional_key"
  secure_override :: "bool optional_key"
  auth_override :: "SmtpAuthOverride optional_key"

record BrandOverride =
  name_override :: "string optional_key"
  primaryColor_override :: "string optional_key"
  secondaryColor_override :: "string optional_key"
  logoUrl_override :: "string optional_key"
  tagline_override :: "string optional_key"

record AppOverride =
  brand_override :: "BrandOverride optional_key"
  smtp_override :: "SmtpOverride optional_key"
  supportEmail_override :: "string optional_key"
  emailSubjectTemplate_override :: "string optional_key"
  customFields_override :: "FieldConfig list optional_key"
  priorities_override :: "string list optional_key"
  categories_override :: "string list optional_key"

text \<open>
  The object that \<^verbatim>\<open>createConfig\<close> returns. A key that is copied by an object spread is
  \<^verbatim>\<open>undefined\<close> (\<open>None\<close>) when the override has it with the value \<^verbatim>\<open>undefined\<close>, so
  the object need not have the declared type \<^verbatim>\<open>AppConfig\<close>.
\<close>

record ResolvedAuth =
  resolved_user :: "string option"
  resolved_pass :: "string option"

record ResolvedSmtp =
  resolved_host :: "string option"
  resolved_port :: "js_number option"
  resolved_secure :: "bool option"
  resolved_auth :: ResolvedAuth

record ResolvedBrand =
  resolved_name :: "string option"
  resolved_primaryColor :: "string option"
  resolved_secondaryColor :: "string option"
  resolved_logoUrl :: "string option"
  resolved_tagline :: "string option"

record ResolvedConfig =
  resolved_brand :: ResolvedBrand
  resolved_smtp :: ResolvedSmtp
  resolved_supportEmail :: "string option"
  resolved_emailSubjectTemplate :: "string option"
  resolved_customFields :: "FieldConfig list"
  resolved_priorities :: "string list"
  resolved_categories :: "string list"

text \<open>One key of \<^verbatim>\<open>{ ...defaults, ...override }\<close>: a key that the override has replaces
  the default's, also when its value is \<^verbatim>\<open>undefined\<close>.\<close>

definition spread_key :: "'a option \<Rightarrow> 'a optional_key \<Rightarrow> 'a option" where
  "spread_key d p = (case p of Absent \<Rightarrow> d | Undefined \<Rightarrow> None | Value v \<Rightarrow> Some v)"

text \<open>\<^verbatim>\<open>override.key ?? d\<close>: reading an absent key gives \<^verbatim>\<open>undefined\<close>.\<close>

definition nullish_key :: "'a optional_key \<Rightarrow> 'a \<Rightarrow> 'a" where
  "nullish_key p d = (case p of Absent \<Rightarrow> d | Undefined \<Rightarrow> d | Value v \<Rightarrow> v)"

text \<open>The object that \<^verbatim>\<open>...override.key\<close> spreads: spreading \<^verbatim>\<open>undefined\<close> adds no key,
  as spreading an object without keys does.\<close>

definition spread_object :: "'o optional_key \<Rightarrow> 'o \<Rightarrow> 'o" where
  "spread_object p no_keys = (case p of Absent \<Rightarrow> no_keys | Undefined \<Rightarrow> no_keys | Value obj \<Rightarrow> obj)"

definition no_keys_auth :: SmtpAuthOverride where
  "no_keys_auth = \<lparr> user_override = Absent, pass_override = Absent \<rparr>"

definition no_keys_smtp :: SmtpOverride where
  "no_keys_smtp =
     \<lparr> host_override = Absent, port_override = Absent, secure_override = Absent,
       auth_override = Absent \<rparr>"

definition no_keys_brand :: BrandOverride where
  "no_keys_brand =
     \<lparr> name_override = Absent, primaryColor_override = Absent,
       secondaryColor_override = Absent, logoUrl_override = Absent,
       tagline_override = Absent \<rparr>"

text \<open>
  \<^verbatim>\<open>createConfig\<close>; \<open>d\<close> is the module constant \<^verbatim>\<open>defaultConfig\<close>, \<open>b\<close> and \<open>s\<close> are what
  \<^verbatim>\<open>...overrides.brand\<close> and \<^verbatim>\<open>...overrides.smtp\<close> spread, and \<open>a\<close> is what
  \<^verbatim>\<open>...overrides.smtp?.auth\<close> spreads. The keys \<^verbatim>\<open>brand\<close>, \<^verbatim>\<open>smtp\<close>, \<^verbatim>\<open>auth\<close>,
  \<^verbatim>\<open>customFields\<close>, \<^verbatim>\<open>priorities\<close> and \<^verbatim>\<open>categories\<close> are written after the spreads and
  replace what the spreads copied.
\<close>

definition createConfig :: "ProcessEnv \<Rightarrow> AppOverride \<Rightarrow> ResolvedConfig" where
  "createConfig env overrides =
     (let d = defaultConfig env;
          b = spread_object (brand_override overrides) no_keys_brand;
          s = spread_object (smtp_override overrides) no_keys_smtp;
          a = spread_object (auth_override s) no_keys_auth
      in \<lparr> resolved_brand =
             \<lparr> resolved_name = spread_key (Some (name (brand d))) (name_override b),
               resolved_primaryColor =
                 spread_key (Some (primaryColor (brand d))) (primaryColor_override b),
               resolved_secondaryColor =
                 spread_key (Some (secondaryColor (brand d))) (secondaryColor_override b),
               resolved_logoUrl = spread_key (logoUrl (brand d)) (logoUrl_override b),
               resolved_tagline = spread_key (Some (tagline (brand d))) (tagline_override b) \<rparr>,
           resolved_smtp =
             \<lparr> resolved_host = spread_key (Some (host (smtp d))) (host_override s),
               resolved_port = spread_key (Some (port (smtp d))) (port_override s),
               resolved_secure = spread_key (Some (secure (smtp d))) (secure_override s),
               resolved_auth =
                 \<lparr> resolved_user = spread_key (Some (user (auth (smtp d)))) (user_override a),
                   resolved_pass = spread_key (Some (pass (auth (smtp d)))) (pass_override a) \<rparr> \<rparr>,
           resolved_supportEmail =
             spread_key (Some (supportEmail d)) (supportEmail_override overrides),
           resolved_emailSubjectTemplate =
             spread_key (Some (emailSubjectTemplate d)) (emailSubjectTemplate_override overrides),
           resolved_customFields = nullish_key (customFields_override overrides) (customFields d),
           resolved_priorities = nullish_key (priorities_override overrides) (priorities d),
           resolved_categories = nullish_key (categories_override overrides) (categories d) \<rparr>)"

text \<open>
  The server uses the returned object at the declared type \<^verbatim>\<open>AppConfig\<close>. It has that
  type when none of its keys is \<^verbatim>\<open>undefined\<close> (\<^verbatim>\<open>logoUrl\<close>, which is optional, apart).
\<close>

definition asAppConfig :: "ResolvedConfig \<Rightarrow> AppConfig option" where
  "asAppConfig c =
     (case (resolved_name (resolved_brand c), resolved_primaryColor (resolved_brand c),
            resolved_secondaryColor (resolved_brand c), resolved_tagline (resolved_brand c),
            resolved_host (resolved_smtp c), resolved_port (resolved_smtp c),
            resolved_secure (resolved_smtp c),
            resolved_user (resolved_auth (resolved_smtp c)),
            resolved_pass (resolved_auth (resolved_smtp c)),
            resolved_supportEmail c, resolved_emailSubjectTemplate c) of
        (Some n, Some pc, Some sc, Some t, Some h, Some p, Some se, Some u, Some pw, Some em,
         Some tmpl) \<Rightarrow>
          Some \<lparr> brand =
                   \<lparr> name = n, primaryColor = pc, secondaryColor = sc,
                     logoUrl = resolved_logoUrl (resolved_brand c), tagline = t \<rparr>,
                 smtp = \<lparr> host = h, port = p, secure = se, auth = \<lparr> user = u, pass = pw \<rparr> \<rparr>,
                 supportEmail = em,
                 emailSubjectTemplate = tmpl,
                 customFields = resolved_customFields c,
                 priorities = resolved_priorities c,
                 categories = resolved_categories c \<rparr>
      | _ \<Rightarrow> None)"

section \<open>The server (server.ts)\<close>

subsection \<open>Ticket Composer\<close>

text \<open>The loop of \<^verbatim>\<open>buildEmailBody\<close> over \<^verbatim>\<open>config.customFields\<close>: a line is pushed for
  a field for which \<^verbatim>\<open>fields[field.key]\<close> is truthy.\<close>

fun push_custom_fields :: "fields \<Rightarrow> FieldConfig list \<Rightarrow> string list \<Rightarrow> string list" where
  "push_custom_fields input [] lines = lines"
| "push_custom_fields input (field # rest) lines =
     push_custom_fields input rest
       (if ToBoolean (Get input (key field))
        then lines @ [label field @ '': '' @ TemplateString (Get input (key field))]
        else lines)"

definition buildEmailBody :: "fields \<Rightarrow> AppConfig \<Rightarrow> string" where
  "buildEmailBody input config =
     (let lines =
            [''New support ticket received via '' @ name (brand config),
             [],
             ''--- Ticket Details ---'',
             [],
             ''Name: '' @ ToString (input ''name''),
             ''Issue: '' @ ToString (input ''issue'')];
          lines = (if truthy (input ''priority'')
                   then lines @ [''Priority: '' @ ToString (input ''priority'')] else lines);
          lines = (if truthy (input ''category'')
                   then lines @ [''Category: '' @ ToString (input ''category'')] else lines);
          lines = push_custom_fields input (customFields config) lines;
          lines = lines @ [[], ''--- End of Ticket ---'']
      in join [CHR 0x0A] lines)"

text \<open>The subject line, computed by the same expression on both paths of
  \<^verbatim>\<open>sendSupportEmail\<close>.\<close>

definition emailSubject :: "fields \<Rightarrow> AppConfig \<Rightarrow> string" where
  "emailSubject input config =
     replace
       (replace (emailSubjectTemplate config) ''{{name}}'' (ToString (input ''name'')))
       ''{{issue}}'' (ToString (input ''issue''))"

subsection \<open>Delivery Dispatcher\<close>

text \<open>The message handed to \<^verbatim>\<open>transporter.sendMail\<close>.\<close>

record Mail =
  "from" :: string
  to :: string
  subject :: string
  "text" :: string
  replyTo :: "string option"

text \<open>
  What the server does to the outside: the lines it writes, each with the channel it is
  written to (\<^verbatim>\<open>console.log\<close> writes to the standard output of the process), and the
  calls of \<^verbatim>\<open>sendMail\<close>, each with the transport options given to
  \<^verbatim>\<open>nodemailer.createTransport\<close>.
\<close>

datatype Channel = ProcessStdout | ProcessStderr | HttpResponse

record World =
  written :: "(Channel \<times> string) list"
  sendMail_calls :: "(SmtpConfig \<times> Mail) list"

definition console_log :: "string \<Rightarrow> World \<Rightarrow> World" where
  "console_log line w = w \<lparr> written := written w @ [(ProcessStdout, line)] \<rparr>"

text \<open>A thrown value: an \<^verbatim>\<open>Error\<close> with its message, or any other value, given by its
  \<^verbatim>\<open>String(...)\<close> conversion.\<close>

datatype Thrown = Error string | NonError string

text \<open>The SMTP transport is a parameter: for the transport options and a message,
  \<open>None\<close> when the promise of \<^verbatim>\<open>sendMail\<close> resolves, \<open>Some e\<close> when it rejects with
  \<open>e\<close>.\<close>

type_synonym Transport = "SmtpConfig \<Rightarrow> Mail \<Rightarrow> Thrown option"

record DeliveryOutcome =
  success :: bool
  message :: string

text \<open>The object that \<^verbatim>\<open>sendSupportEmail\<close> passes to \<^verbatim>\<open>sendMail\<close>;
  \<^verbatim>\<open>fields.email || undefined\<close> is \<^verbatim>\<open>undefined\<close> for a missing and for an empty value.\<close>

definition mailOptions :: "fields \<Rightarrow> AppConfig \<Rightarrow> Mail" where
  "mailOptions input config =
     \<lparr> from = user (auth (smtp config)),
       to = supportEmail config,
       subject = emailSubject input config,
       text = buildEmailBody input config,
       replyTo = (if truthy (input ''email'') then input ''email'' else None) \<rparr>"

definition sendSupportEmail ::
  "Transport \<Rightarrow> fields \<Rightarrow> AppConfig \<Rightarrow> World \<Rightarrow> (Thrown + DeliveryOutcome) \<times> World" where
  "sendSupportEmail sendMail input config w =
     (if user (auth (smtp config)) = [] \<or> pass (auth (smtp config)) = [] then
        let body = buildEmailBody input config;
            w = console_log ''=== EMAIL PREVIEW (SMTP not configured) ==='' w;
            w = console_log (''To: '' @ supportEmail config) w;
            w = console_log (''Subject: '' @ emailSubject input config) w;
            w = console_log body w;
            w = console_log ''============================================'' w
        in (Inr \<lparr> success = True,
                   message = ''Ticket recorded (email preview logged ''
                     @ [CHR 0xE2, CHR 0x80, CHR 0x94]
                     @ '' configure SMTP credentials to enable delivery).'' \<rparr>, w)
      else
        let w = w \<lparr> sendMail_calls :=
                      sendMail_calls w @ [(smtp config, mailOptions input config)] \<rparr>
        in case sendMail (smtp config) (mailOptions input config) of
             Some e \<Rightarrow> (Inl e, w)
           | None \<Rightarrow> (Inr \<lparr> success = True, message = ''Support ticket sent successfully.'' \<rparr>, w))"

subsection \<open>Schema Builder\<close>

text \<open>A field of the schema: every field is a \<^verbatim>\<open>z.string()\<close>, optional or not, with a
  description.\<close>

record ZodString =
  optional :: bool
  description :: string

text \<open>
  The shape is a plain object, given by the map of its own keys. The assignment
  \<^verbatim>\<open>shape[field.key] = ...\<close> adds the own key or replaces its value, except for the key
  \<^verbatim>\<open>__proto__\<close>, which the shape inherits from \<^verbatim>\<open>Object.prototype\<close> as an accessor:
  assigning to it makes the assigned schema object the prototype of the shape and adds no
  own key. What the assignments after that do depends on the properties of that zod
  object, which is not code of this repository. The model stops there:
  \<open>PrototypeReplaced\<close> holds the own keys written so far, the schema object that became
  the prototype, and the custom fields not yet assigned.
\<close>

datatype ShapeResult =
    Shape (own_keys: "string \<rightharpoonup> ZodString")
  | PrototypeReplaced (own_keys: "string \<rightharpoonup> ZodString") ZodString "FieldConfig list"

fun assign_custom_fields :: "FieldConfig list \<Rightarrow> (string \<rightharpoonup> ZodString) \<Rightarrow> ShapeResult" where
  "assign_custom_fields [] shape = Shape shape"
| "assign_custom_fields (field # rest) shape =
     (if key field = ''__proto__''
      then PrototypeReplaced shape
             \<lparr> optional = \<not> required field, description = label field \<rparr> rest
      else assign_custom_fields rest
             (shape (key field \<mapsto>
                \<lparr> optional = \<not> required field, description = label field \<rparr>)))"

definition buildInputSchema :: "AppConfig \<Rightarrow> ShapeResult" where
  "buildInputSchema config =
     assign_custom_fields (customFields config)
       [''name'' \<mapsto> \<lparr> optional = False, description = ''Full name of the customer'' \<rparr>,
        ''issue'' \<mapsto>
          \<lparr> optional = False,
            description = ''Description of the customer'' @ [CHR 0x27] @ ''s issue'' \<rparr>,
        ''priority'' \<mapsto>
          \<lparr> optional = True,
            description = ''Ticket priority level ('' @ join '', '' (priorities config) @ '')'' \<rparr>,
        ''category'' \<mapsto>
          \<lparr> optional = True,
            description = ''Issue category ('' @ join '', '' (categories config) @ '')'' \<rparr>]"

subsection \<open>Ticket Endpoint\<close>

text \<open>
  The handler of the \<^verbatim>\<open>customer_support\<close> tool. Its result carries one text item, the
  \<^verbatim>\<open>JSON.stringify\<close> of a payload object; the model keeps the object. A property whose
  value is \<^verbatim>\<open>undefined\<close> (\<open>None\<close>) is left out by \<^verbatim>\<open>JSON.stringify\<close>. The time stamp
  \<^verbatim>\<open>new Date().toISOString()\<close> is the argument \<open>now\<close>.
\<close>

record TicketEcho =
  ticket_name :: "string option"
  ticket_issue :: "string option"
  ticket_priority :: string
  ticket_category :: string
  timestamp :: string

record Payload =
  status :: string
  payload_message :: string
  ticket :: "TicketEcho option"

record CallToolResult =
  content :: Payload
  isError :: bool

definition handler ::
  "Transport \<Rightarrow> string \<Rightarrow> AppConfig \<Rightarrow> fields \<Rightarrow> World \<Rightarrow> CallToolResult \<times> World" where
  "handler sendMail now config input w =
     (case sendSupportEmail sendMail input config w of
        (Inr result, w') \<Rightarrow>
          (\<lparr> content =
               \<lparr> status = (if success result then ''ok'' else ''error''),
                 payload_message = message result,
                 ticket = Some
                   \<lparr> ticket_name = input ''name'',
                     ticket_issue = input ''issue'',
                     ticket_priority = nullish (input ''priority'') ''Medium'',
                     ticket_category = nullish (input ''category'') ''General Inquiry'',
                     timestamp = now \<rparr> \<rparr>,
             isError = False \<rparr>, w')
      | (Inl error, w') \<Rightarrow>
          (\<lparr> content =
               \<lparr> status = ''error'',
                 payload_message = (case error of Error msg \<Rightarrow> msg | NonError s \<Rightarrow> s),
                 ticket = None \<rparr>,
             isError = True \<rparr>, w'))"

subsection \<open>The channel of the protocol responses\<close>

text \<open>
  Modelled from the spec: the entry point \<^verbatim>\<open>main.ts\<close>, which connects the server to an HTTP
  or to a stdio transport (README, Architecture), is not among the sources. The structured
  protocol responses travel in the HTTP response under the HTTP transport, and on the
  standard output of the process under the stdio transport.
\<close>

datatype ServerTransport = StreamableHttp | Stdio

fun protocol_channel :: "ServerTransport \<Rightarrow> Channel" where
  "protocol_channel StreamableHttp = HttpResponse"
| "protocol_channel Stdio = ProcessStdout"

definition written_to :: "Channel \<Rightarrow> World \<Rightarrow> string list" where
  "written_to c w = map snd (filter (\<lambda>entry. fst entry = c) (written w))"

section \<open>The substitution, the body and the merge as the specification words them\<close>

text \<open>Every occurrence of a (non-empty) token is replaced by the value.\<close>

function replace_every :: "string \<Rightarrow> string \<Rightarrow> string \<Rightarrow> string" where
  "replace_every tok v [] = []"
| "replace_every tok v (c # cs) =
     (if tok \<noteq> [] \<and> prefix tok (c # cs)
      then v @ replace_every tok v (drop (length tok) (c # cs))
      else c # replace_every tok v cs)"
  by pat_completeness auto
termination
proof (relation "measure (\<lambda>(tok, v, s). length s)", goal_cases)
  case 1
  show ?case by simp
next
  case (2 tok v c cs)
  then show ?case by (cases tok; simp)
next
  case (3 tok v c cs)
  show ?case by simp
qed

definition subject_every_occurrence :: "string \<Rightarrow> string \<Rightarrow> string \<Rightarrow> string" where
  "subject_every_occurrence template name_value issue_value =
     replace_every ''{{issue}}'' issue_value (replace_every ''{{name}}'' name_value template)"

text \<open>Only the first occurrence of the token is replaced by the value.\<close>

fun replace_first :: "string \<Rightarrow> string \<Rightarrow> string \<Rightarrow> string" where
  "replace_first tok v [] = (if tok = [] then v else [])"
| "replace_first tok v (c # cs) =
     (if prefix tok (c # cs) then v @ drop (length tok) (c # cs)
      else c # replace_first tok v cs)"

text \<open>The lines of the body, in their fixed order: the header naming the brand and the
  separator, the name and the issue, the priority and the category when they have a
  value, one line per custom field that has a value, in the declared order, and the
  closing separator.\<close>

definition body_lines :: "fields \<Rightarrow> AppConfig \<Rightarrow> string list" where
  "body_lines input config =
     [''New support ticket received via '' @ name (brand config), [],
      ''--- Ticket Details ---'', [],
      ''Name: '' @ ToString (input ''name''),
      ''Issue: '' @ ToString (input ''issue'')]
     @ (if truthy (input ''priority'') then [''Priority: '' @ ToString (input ''priority'')] else [])
     @ (if truthy (input ''category'') then [''Category: '' @ ToString (input ''category'')] else [])
     @ map (\<lambda>f. label f @ '': '' @ ToString (input (key f)))
         (filter (\<lambda>f. truthy (input (key f))) (customFields config))
     @ [[], ''--- End of Ticket ---'']"

text \<open>The state of a key of a nested override object, as in
  \<^verbatim>\<open>overrides.brand?.name\<close>: the key is absent when the nested object is absent or
  \<^verbatim>\<open>undefined\<close>.\<close>

definition nested_key :: "'o optional_key \<Rightarrow> ('o \<Rightarrow> 'a optional_key) \<Rightarrow> 'a optional_key" where
  "nested_key obj k = (case obj of Absent \<Rightarrow> Absent | Undefined \<Rightarrow> Absent | Value v \<Rightarrow> k v)"

section \<open>Example inputs\<close>

text \<open>No variable of the environment is set, and no override is given.\<close>

definition unset_env :: ProcessEnv where
  "unset_env =
     \<lparr> SMTP_HOST = None, SMTP_PORT = None, SMTP_SECURE = None, SMTP_USER = None,
       SMTP_PASS = None, SUPPORT_EMAIL = None \<rparr>"

definition no_override :: AppOverride where
  "no_override =
     \<lparr> brand_override = Absent, smtp_override = Absent, supportEmail_override = Absent,
       emailSubjectTemplate_override = Absent, customFields_override = Absent,
       priorities_override = Absent, categories_override = Absent \<rparr>"

text \<open>The environment provides the SMTP credentials.\<close>

definition smtp_env :: ProcessEnv where
  "smtp_env = unset_env \<lparr> SMTP_USER := Some ''desk@example.com'', SMTP_PASS := Some ''s3cret'' \<rparr>"

definition ada_ticket :: fields where
  "ada_ticket = [''name'' \<mapsto> ''Ada'', ''issue'' \<mapsto> ''Login broken'']"

definition ada_ticket_with_email :: fields where
  "ada_ticket_with_email = ada_ticket (''email'' \<mapsto> ''ada@example.com'')"

definition empty_world :: World where
  "empty_world = \<lparr> written = [], sendMail_calls = [] \<rparr>"

section \<open>Lemmas about the built-ins and the loops\<close>

lemma GetSubstitution_no_dollar:
  "CHR ''$'' \<notin> set r \<Longrightarrow> GetSubstitution m s p r = r"
  by (induction m s p r rule: GetSubstitution.induct) auto

lemma replace_no_dollar:
  "CHR ''$'' \<notin> set r \<Longrightarrow> replace s t r = replace_first t r s"
proof (induction s)
  case Nil
  then show ?case by (simp add: replace_def GetSubstitution_no_dollar)
next
  case (Cons c cs)
  then show ?case
    by (auto simp: replace_def GetSubstitution_no_dollar split: option.splits)
qed

lemma replace_absent: "\<not> js_includes s t \<Longrightarrow> replace s t r = s"
  by (simp add: replace_def js_includes_def)

lemma Get_own_or_undefined:
  assumes "input k = None \<longrightarrow> k \<notin> set Object_prototype_keys"
  shows "ToBoolean (Get input k) = truthy (input k)"
    and "TemplateString (Get input k) = ToString (input k)"
  using assms
  by (auto simp: Get_def ToBoolean_def TemplateString_def truthy_def ToString_def
      split: option.splits)

lemma push_custom_fields_eq:
  "push_custom_fields input cfs lines =
     lines @ map (\<lambda>f. label f @ '': '' @ TemplateString (Get input (key f)))
               (filter (\<lambda>f. ToBoolean (Get input (key f))) cfs)"
  by (induction cfs arbitrary: lines) simp_all

lemma custom_lines_own:
  assumes "\<forall>f \<in> set cfs. input (key f) = None \<longrightarrow> key f \<notin> set Object_prototype_keys"
  shows "map (\<lambda>f. label f @ '': '' @ TemplateString (Get input (key f)))
           (filter (\<lambda>f. ToBoolean (Get input (key f))) cfs) =
         map (\<lambda>f. label f @ '': '' @ ToString (input (key f)))
           (filter (\<lambda>f. truthy (input (key f))) cfs)"
  using assms
  by (induction cfs) (simp_all add: Get_own_or_undefined)

lemma buildEmailBody_lines:
  assumes "\<forall>f \<in> set (customFields config).
             input (key f) = None \<longrightarrow> key f \<notin> set Object_prototype_keys"
  shows "buildEmailBody input config = join [CHR 0x0A] (body_lines input config)"
  using custom_lines_own [OF assms]
  by (simp add: buildEmailBody_def body_lines_def push_custom_fields_eq Let_def)

lemma filter_removeAll_absent:
  "\<not> P f \<Longrightarrow> filter P (removeAll f xs) = filter P xs"
  by (induction xs) auto

lemma buildEmailBody_without_field:
  assumes "input (key f) = None" and "key f \<notin> set Object_prototype_keys"
  shows "buildEmailBody input config =
         buildEmailBody input (config \<lparr> customFields := removeAll f (customFields config) \<rparr>)"
proof -
  have "\<not> ToBoolean (Get input (key f))"
    using assms by (simp add: Get_def ToBoolean_def)
  then show ?thesis
    by (simp add: buildEmailBody_def push_custom_fields_eq Let_def filter_removeAll_absent)
qed

lemma assign_custom_fields_Shape:
  "''__proto__'' \<notin> key ` set cfs \<Longrightarrow>
   assign_custom_fields cfs shape = Shape (own_keys (assign_custom_fields cfs shape))"
  by (induction cfs arbitrary: shape) auto

lemma assign_custom_fields_other:
  "k \<notin> key ` set cfs \<Longrightarrow> own_keys (assign_custom_fields cfs shape) k = shape k"
  by (induction cfs arbitrary: shape) auto

lemma assign_custom_fields_distinct:
  "''__proto__'' \<notin> key ` set cfs \<Longrightarrow> distinct (map key cfs) \<Longrightarrow> f \<in> set cfs \<Longrightarrow>
   own_keys (assign_custom_fields cfs shape) (key f) =
     Some \<lparr> optional = \<not> required f, description = label f \<rparr>"
  by (induction cfs arbitrary: shape) (auto simp: assign_custom_fields_other)

lemma push_custom_fields_empty_value:
  "k \<notin> set Object_prototype_keys \<Longrightarrow>
   push_custom_fields (input (k \<mapsto> [])) cfs lines =
   push_custom_fields (input (k := None)) cfs lines"
  by (induction cfs arbitrary: lines) (simp_all add: Get_def ToBoolean_def)

lemma sendSupportEmail_Inr_success:
  "sendSupportEmail sendMail input config w = (Inr r, w') \<Longrightarrow> success r"
  by (auto simp: sendSupportEmail_def Let_def split: if_splits option.splits)

lemmas example_defs =
  defaultConfig_def unset_env_def smtp_env_def ada_ticket_def ada_ticket_with_email_def
  empty_world_def nullish_def

lemmas property_defs =
  Get_def ToBoolean_def TemplateString_def Object_prototype_keys_def

section \<open>Subject line (C1)\<close>

text \<open>
  C1, as stated: the subject is the template with every occurrence of \<^verbatim>\<open>{{name}}\<close> and of
  \<^verbatim>\<open>{{issue}}\<close> replaced. It fails where a token occurs twice:
  \<^verbatim>\<open>String.prototype.replace\<close> with a string pattern replaces the first occurrence only.
\<close>

theorem emailSubject_every_occurrence_counterexample:
  "emailSubject (ada_ticket (''issue'' \<mapsto> ''x''))
     ((defaultConfig unset_env) \<lparr> emailSubjectTemplate := ''{{name}} {{name}}'' \<rparr>)
     = ''Ada {{name}}'' \<and>
   subject_every_occurrence ''{{name}} {{name}}'' ''Ada'' ''x'' = ''Ada Ada''"
  by (simp add: emailSubject_def replace_def ToString_def subject_every_occurrence_def
      ada_ticket_def)

text \<open>
  C1, amended: a template that contains neither token is returned unchanged; and when the
  name and the issue contain no \<^verbatim>\<open>$\<close>, the subject is the template with the first
  occurrence of \<^verbatim>\<open>{{name}}\<close> replaced by the name and then the first occurrence of
  \<^verbatim>\<open>{{issue}}\<close> in the result replaced by the issue.
\<close>

theorem emailSubject_first_occurrence:
  "(\<not> js_includes (emailSubjectTemplate config) ''{{name}}'' \<and>
    \<not> js_includes (emailSubjectTemplate config) ''{{issue}}''
      \<longrightarrow> emailSubject input config = emailSubjectTemplate config) \<and>
   (CHR ''$'' \<notin> set (ToString (input ''name'')) \<and> CHR ''$'' \<notin> set (ToString (input ''issue''))
      \<longrightarrow> emailSubject input config =
            replace_first ''{{issue}}'' (ToString (input ''issue''))
              (replace_first ''{{name}}'' (ToString (input ''name''))
                 (emailSubjectTemplate config)))"
  by (simp add: emailSubject_def replace_absent replace_no_dollar)

theorem emailSubject_first_occurrence_witness:
  "emailSubject ada_ticket
     ((defaultConfig unset_env) \<lparr> emailSubjectTemplate := ''New ticket'' \<rparr>)
     = ''New ticket'' \<and>
   emailSubject ada_ticket (defaultConfig unset_env)
     = ''Support Request from Ada: Login broken''"
  using
    emailSubject_first_occurrence [of
      "(defaultConfig unset_env) \<lparr> emailSubjectTemplate := ''New ticket'' \<rparr>"
      ada_ticket]
    emailSubject_first_occurrence [of "defaultConfig unset_env" ada_ticket]
  by (simp add: example_defs js_includes_def ToString_def)

section \<open>Config Resolver (C4)\<close>

text \<open>
  C4, as stated: a top-level key that is present in the override replaces the default, and
  a key of \<^verbatim>\<open>brand\<close>, \<^verbatim>\<open>smtp\<close> or \<^verbatim>\<open>smtp.auth\<close> that is unset falls through to the
  default. An override may have a key with the value \<^verbatim>\<open>undefined\<close>. With the override
  \<^verbatim>\<open>{ customFields: undefined, brand: { name: undefined } }\<close> the key \<^verbatim>\<open>customFields\<close>,
  which the override has, does not replace the default list, and \<^verbatim>\<open>brand.name\<close>, to which
  the override gives no value, does not fall through to the default: it is \<^verbatim>\<open>undefined\<close>
  in the result.
\<close>

theorem createConfig_undefined_counterexample:
  "resolved_customFields
     (createConfig unset_env
        (no_override
           \<lparr> brand_override := Value (no_keys_brand \<lparr> name_override := Undefined \<rparr>),
             customFields_override := Undefined \<rparr>))
     = customFields (defaultConfig unset_env) \<and>
   resolved_name (resolved_brand
     (createConfig unset_env
        (no_override
           \<lparr> brand_override := Value (no_keys_brand \<lparr> name_override := Undefined \<rparr>),
             customFields_override := Undefined \<rparr>)))
     = None \<and>
   name (brand (defaultConfig unset_env)) = ''Customer Support''"
  by (simp add: createConfig_def Let_def no_override_def no_keys_brand_def spread_object_def
      spread_key_def nullish_key_def defaultConfig_def)

text \<open>
  C4, amended: in the resolved configuration, each of \<^verbatim>\<open>customFields\<close>, \<^verbatim>\<open>priorities\<close>
  and \<^verbatim>\<open>categories\<close> is the override's list, as a whole, when the override has the key
  with a value, and the default when the key is absent or \<^verbatim>\<open>undefined\<close>; each of
  \<^verbatim>\<open>supportEmail\<close> and \<^verbatim>\<open>emailSubjectTemplate\<close>, and each key of \<^verbatim>\<open>brand\<close>, of
  \<^verbatim>\<open>smtp\<close> and of \<^verbatim>\<open>smtp.auth\<close>, is what the override has for that (nested) key when it
  has the key, also when that is \<^verbatim>\<open>undefined\<close>, and the default when the key is absent.
  Without an override the result is the default configuration, and an override that sets
  only \<^verbatim>\<open>brand.name\<close> gives the default configuration with that brand name:
  \<^verbatim>\<open>brand.primaryColor\<close> and every \<^verbatim>\<open>smtp\<close> field are the defaults.
\<close>

theorem createConfig_merge:
  "(let d = defaultConfig env; c = createConfig env ov in
    resolved_customFields c = nullish_key (customFields_override ov) (customFields d) \<and>
    resolved_priorities c = nullish_key (priorities_override ov) (priorities d) \<and>
    resolved_categories c = nullish_key (categories_override ov) (categories d) \<and>
    resolved_supportEmail c = spread_key (Some (supportEmail d)) (supportEmail_override ov) \<and>
    resolved_emailSubjectTemplate c =
      spread_key (Some (emailSubjectTemplate d)) (emailSubjectTemplate_override ov) \<and>
    resolved_name (resolved_brand c) =
      spread_key (Some (name (brand d))) (nested_key (brand_override ov) name_override) \<and>
    resolved_primaryColor (resolved_brand c) =
      spread_key (Some (primaryColor (brand d)))
        (nested_key (brand_override ov) primaryColor_override) \<and>
    resolved_secondaryColor (resolved_brand c) =
      spread_key (Some (secondaryColor (brand d)))
        (nested_key (brand_override ov) secondaryColor_override) \<and>
    resolved_logoUrl (resolved_brand c) =
      spread_key (logoUrl (brand d)) (nested_key (brand_override ov) logoUrl_override) \<and>
    resolved_tagline (resolved_brand c) =
      spread_key (Some (tagline (brand d))) (nested_key (brand_override ov) tagline_override) \<and>
    resolved_host (resolved_smtp c) =
      spread_key (Some (host (smtp d))) (nested_key (smtp_override ov) host_override) \<and>
    resolved_port (resolved_smtp c) =
      spread_key (Some (port (smtp d))) (nested_key (smtp_override ov) port_override) \<and>
    resolved_secure (resolved_smtp c) =
      spread_key (Some (secure (smtp d))) (nested_key (smtp_override ov) secure_override) \<and>
    resolved_user (resolved_auth (resolved_smtp c)) =
      spread_key (Some (user (auth (smtp d))))
        (nested_key (nested_key (smtp_override ov) auth_override) user_override) \<and>
    resolved_pass (resolved_auth (resolved_smtp c)) =
      spread_key (Some (pass (auth (smtp d))))
        (nested_key (nested_key (smtp_override ov) auth_override) pass_override) \<and>
    asAppConfig (createConfig env no_override) = Some d \<and>
    asAppConfig
      (createConfig env
         (no_override
            \<lparr> brand_override := Value (no_keys_brand \<lparr> name_override := Value n \<rparr>) \<rparr>))
      = Some (d \<lparr> brand := (brand d) \<lparr> name := n \<rparr> \<rparr>))"
  unfolding Let_def createConfig_def
  by (simp add: spread_object_def spread_key_def nullish_key_def nested_key_def
      no_keys_brand_def no_keys_smtp_def no_keys_auth_def no_override_def asAppConfig_def
      split: optional_key.splits)

section \<open>Ticket Composer (C5)\<close>

text \<open>
  C5, as stated, ends: when a custom field is omitted from the ticket, the body never
  contains that field's label. It fails where the label's text occurs in another line:
  with the default configuration and no \<^verbatim>\<open>email\<close> in the ticket, an issue that mentions
  ``Email Address'' puts the label of the \<^verbatim>\<open>email\<close> field in the body.
\<close>

theorem buildEmailBody_label_counterexample:
  "customFields (defaultConfig unset_env) =
     [\<lparr> key = ''email'', label = ''Email Address'', type = Email,
        placeholder = ''you@example.com'', required = False, options = None \<rparr>] \<and>
   (ada_ticket (''issue'' \<mapsto> ''Email Address bounced'')) ''email'' = None \<and>
   js_includes
     (buildEmailBody (ada_ticket (''issue'' \<mapsto> ''Email Address bounced''))
        (defaultConfig unset_env))
     ''Email Address''"
  by (simp add: buildEmailBody_def Let_def example_defs property_defs truthy_def ToString_def
      js_includes_def)

text \<open>
  C5, amended, for custom fields whose keys are not names of properties of
  \<^verbatim>\<open>Object.prototype\<close> where the ticket omits them: the body is the lines of \<open>body_lines\<close>
  joined by newlines: the header naming the brand, the separator, the name line, the issue
  line, a priority line only if the priority has a (non-empty) value, a category line only
  if the category has a value, one label-and-value line per custom field that has a value,
  in the declared order, and the closing separator. When such a custom field is omitted
  from the ticket, no line is produced for it: the body is the one that the configuration
  without that field gives.
\<close>

theorem buildEmailBody_structure:
  "((\<forall>g \<in> set (customFields config).
       input (key g) = None \<longrightarrow> key g \<notin> set Object_prototype_keys)
      \<longrightarrow> buildEmailBody input config = join [CHR 0x0A] (body_lines input config)) \<and>
   (input (key f) = None \<and> key f \<notin> set Object_prototype_keys \<longrightarrow>
      buildEmailBody input config =
        buildEmailBody input (config \<lparr> customFields := removeAll f (customFields config) \<rparr>))"
  using buildEmailBody_lines [of config input] buildEmailBody_without_field [of input f config]
  by blast

theorem buildEmailBody_structure_witness:
  "buildEmailBody ada_ticket (defaultConfig unset_env) =
     join [CHR 0x0A]
       [''New support ticket received via Customer Support'', [], ''--- Ticket Details ---'', [],
        ''Name: Ada'', ''Issue: Login broken'', [], ''--- End of Ticket ---''] \<and>
   buildEmailBody ada_ticket (defaultConfig unset_env) =
     buildEmailBody ada_ticket ((defaultConfig unset_env) \<lparr> customFields := [] \<rparr>)"
  using buildEmailBody_structure [of "defaultConfig unset_env" ada_ticket
      "\<lparr> key = ''email'', label = ''Email Address'', type = Email,
         placeholder = ''you@example.com'', required = False, options = None \<rparr>"]
  by (simp add: buildEmailBody_def Let_def body_lines_def example_defs property_defs
      truthy_def ToString_def)

section \<open>Schema Builder (C2)\<close>

text \<open>
  C2, as stated: for every configuration, also one whose custom fields contain an entry
  keyed \<^verbatim>\<open>name\<close> or \<^verbatim>\<open>issue\<close>, the schema maps \<^verbatim>\<open>name\<close> and \<^verbatim>\<open>issue\<close> to required
  string fields. It fails for an optional custom field keyed \<^verbatim>\<open>name\<close>: the loop over the
  custom fields assigns to the same key of the shape, and the later write wins.
\<close>

theorem buildInputSchema_name_counterexample:
  "own_keys
     (buildInputSchema
        ((defaultConfig unset_env)
           \<lparr> customFields :=
               [\<lparr> key = ''name'', label = ''Nickname'', type = Text, placeholder = [],
                  required = False, options = None \<rparr>] \<rparr>))
     ''name''
   = Some \<lparr> optional = True, description = ''Nickname'' \<rparr>"
  by (simp add: buildInputSchema_def)

text \<open>
  C2, amended, for every configuration in which no custom field is keyed \<^verbatim>\<open>__proto__\<close>:
  the schema builder returns a shape; when no custom field is keyed \<^verbatim>\<open>name\<close>
  (\<^verbatim>\<open>issue\<close>), the shape maps \<^verbatim>\<open>name\<close> (\<^verbatim>\<open>issue\<close>) to a required string field; when no
  custom field is keyed \<^verbatim>\<open>priority\<close> (\<^verbatim>\<open>category\<close>), it maps \<^verbatim>\<open>priority\<close>
  (\<^verbatim>\<open>category\<close>) to an optional string field whose description enumerates the configured
  allowed values; and when the keys of the custom fields are pairwise distinct, it maps the
  key of each custom field to a string field that is required exactly when the field's
  \<^verbatim>\<open>required\<close> flag is set.
\<close>

theorem buildInputSchema_fields:
  assumes "''__proto__'' \<notin> key ` set (customFields config)"
  shows
  "buildInputSchema config = Shape (own_keys (buildInputSchema config)) \<and>
   (''name'' \<notin> key ` set (customFields config) \<longrightarrow>
      own_keys (buildInputSchema config) ''name'' =
        Some \<lparr> optional = False, description = ''Full name of the customer'' \<rparr>) \<and>
   (''issue'' \<notin> key ` set (customFields config) \<longrightarrow>
      own_keys (buildInputSchema config) ''issue'' =
        Some \<lparr> optional = False,
               description = ''Description of the customer'' @ [CHR 0x27] @ ''s issue'' \<rparr>) \<and>
   (''priority'' \<notin> key ` set (customFields config) \<longrightarrow>
      own_keys (buildInputSchema config) ''priority'' =
        Some \<lparr> optional = True,
               description =
                 ''Ticket priority level ('' @ join '', '' (priorities config) @ '')'' \<rparr>) \<and>
   (''category'' \<notin> key ` set (customFields config) \<longrightarrow>
      own_keys (buildInputSchema config) ''category'' =
        Some \<lparr> optional = True,
               description = ''Issue category ('' @ join '', '' (categories config) @ '')'' \<rparr>) \<and>
   (distinct (map key (customFields config)) \<longrightarrow>
      (\<forall>f \<in> set (customFields config).
         own_keys (buildInputSchema config) (key f) =
           Some \<lparr> optional = \<not> required f, description = label f \<rparr>))"
  using assms assign_custom_fields_Shape [OF assms]
  by (simp add: buildInputSchema_def assign_custom_fields_other assign_custom_fields_distinct)

theorem buildInputSchema_fields_witness:
  "buildInputSchema (defaultConfig unset_env) =
     Shape (own_keys (buildInputSchema (defaultConfig unset_env))) \<and>
   own_keys (buildInputSchema (defaultConfig unset_env)) ''name'' =
     Some \<lparr> optional = False, description = ''Full name of the customer'' \<rparr> \<and>
   own_keys (buildInputSchema (defaultConfig unset_env)) ''issue'' =
     Some \<lparr> optional = False,
            description = ''Description of the customer'' @ [CHR 0x27] @ ''s issue'' \<rparr> \<and>
   own_keys (buildInputSchema (defaultConfig unset_env)) ''priority'' =
     Some \<lparr> optional = True,
            description = ''Ticket priority level (Low, Medium, High, Urgent)'' \<rparr> \<and>
   own_keys (buildInputSchema (defaultConfig unset_env)) ''category'' =
     Some \<lparr> optional = True,
            description =
              ''Issue category (General Inquiry, Technical Support, Billing, Feature Request, Bug Report)'' \<rparr> \<and>
   own_keys (buildInputSchema (defaultConfig unset_env)) ''email'' =
     Some \<lparr> optional = True, description = ''Email Address'' \<rparr>"
  using buildInputSchema_fields [of "defaultConfig unset_env"]
  by (simp add: example_defs)

section \<open>Delivery Dispatcher (C3, C8)\<close>



text \<open>
  C8, as stated: the reply-to of the message equals the ticket's \<^verbatim>\<open>email\<close> value when it
  is present. It fails for a ticket that has \<^verbatim>\<open>email\<close> with the empty string (what the
  form sends for a cleared field): \<^verbatim>\<open>fields.email || undefined\<close> is then \<^verbatim>\<open>undefined\<close>,
  and the message that is sent has no reply-to.
\<close>

theorem sendSupportEmail_replyTo_counterexample:
  "(ada_ticket (''email'' \<mapsto> [])) ''email'' = Some [] \<and>
   sendSupportEmail (\<lambda>_ _. None) (ada_ticket (''email'' \<mapsto> []))
     (defaultConfig smtp_env) empty_world =
     (Inr \<lparr> success = True, message = ''Support ticket sent successfully.'' \<rparr>,
      empty_world \<lparr> sendMail_calls :=
        [(smtp (defaultConfig smtp_env),
          mailOptions (ada_ticket (''email'' \<mapsto> [])) (defaultConfig smtp_env))] \<rparr>) \<and>
   replyTo (mailOptions (ada_ticket (''email'' \<mapsto> [])) (defaultConfig smtp_env)) = None"
  by (simp add: sendSupportEmail_def Let_def mailOptions_def truthy_def example_defs)

text \<open>
  C8, amended: with a non-empty credential pair and a transport that accepts the message,
  the dispatcher makes exactly one call of \<^verbatim>\<open>sendMail\<close>, with the configured transport
  options; the message's recipient is the configured support address, its sender is the
  credential's user, its reply-to is the ticket's \<^verbatim>\<open>email\<close> value when the ticket has a
  non-empty one, and it has no reply-to when the ticket has no \<^verbatim>\<open>email\<close> or an empty
  one; the dispatcher returns success with the message
  ``Support ticket sent successfully.''
\<close>

theorem sendSupportEmail_delivers:
  assumes "user (auth (smtp config)) \<noteq> []" and "pass (auth (smtp config)) \<noteq> []"
    and "sendMail (smtp config) (mailOptions input config) = None"
  shows "sendSupportEmail sendMail input config w =
     (Inr \<lparr> success = True, message = ''Support ticket sent successfully.'' \<rparr>,
      w \<lparr> sendMail_calls := sendMail_calls w @ [(smtp config, mailOptions input config)] \<rparr>) \<and>
     to (mailOptions input config) = supportEmail config \<and>
     from (mailOptions input config) = user (auth (smtp config)) \<and>
     (\<forall>address. input ''email'' = Some address \<and> address \<noteq> [] \<longrightarrow>
        replyTo (mailOptions input config) = Some address) \<and>
     (input ''email'' = None \<or> input ''email'' = Some [] \<longrightarrow>
        replyTo (mailOptions input config) = None)"
  using assms
  by (auto simp: sendSupportEmail_def Let_def mailOptions_def truthy_def)

theorem sendSupportEmail_delivers_witness:
  "sendSupportEmail (\<lambda>_ _. None) ada_ticket_with_email
     (defaultConfig smtp_env) empty_world =
     (Inr \<lparr> success = True, message = ''Support ticket sent successfully.'' \<rparr>,
      empty_world \<lparr> sendMail_calls :=
        [(smtp (defaultConfig smtp_env),
          mailOptions ada_ticket_with_email (defaultConfig smtp_env))] \<rparr>) \<and>
   to (mailOptions ada_ticket_with_email (defaultConfig smtp_env))
     = ''support@example.com'' \<and>
   from (mailOptions ada_ticket_with_email (defaultConfig smtp_env))
     = ''desk@example.com'' \<and>
   replyTo (mailOptions ada_ticket_with_email (defaultConfig smtp_env))
     = Some ''ada@example.com'' \<and>
   replyTo (mailOptions ada_ticket (defaultConfig smtp_env)) = None"
  using
    sendSupportEmail_delivers [of "defaultConfig smtp_env" "\<lambda>_ _. None"
      ada_ticket_with_email empty_world]
    sendSupportEmail_delivers [of "defaultConfig smtp_env" "\<lambda>_ _. None"
      ada_ticket empty_world]
  by (simp add: example_defs)

section \<open>Ticket Endpoint (C6, C7, C10)\<close>

text \<open>
  C6: the handler returns a result in every case. Whenever composition or dispatch raises,
  the result is flagged as an error and its payload has the status ``error'' and the
  message of the raised value; in particular, with a non-empty credential pair and a
  transport that fails with an error, the payload's message is the message of that error.
\<close>

theorem handler_catches:
  "(sendSupportEmail sendMail input config w = (Inl e, w') \<longrightarrow>
      handler sendMail now config input w =
        (\<lparr> content =
             \<lparr> status = ''error'',
               payload_message = (case e of Error msg \<Rightarrow> msg | NonError s \<Rightarrow> s),
               ticket = None \<rparr>,
           isError = True \<rparr>, w')) \<and>
   (user (auth (smtp config)) \<noteq> [] \<and> pass (auth (smtp config)) \<noteq> [] \<and>
    sendMail (smtp config) (mailOptions input config) = Some (Error failure)
      \<longrightarrow> fst (handler sendMail now config input w) =
            \<lparr> content = \<lparr> status = ''error'', payload_message = failure, ticket = None \<rparr>,
              isError = True \<rparr>)"
  by (simp add: handler_def sendSupportEmail_def Let_def)

theorem handler_catches_witness:
  "handler (\<lambda>_ _. Some (Error ''connect ECONNREFUSED'')) ''2026-01-01T00:00:00.000Z''
     (defaultConfig smtp_env) ada_ticket empty_world =
     (\<lparr> content =
          \<lparr> status = ''error'', payload_message = ''connect ECONNREFUSED'', ticket = None \<rparr>,
        isError = True \<rparr>,
      empty_world \<lparr> sendMail_calls :=
        [(smtp (defaultConfig smtp_env),
          mailOptions ada_ticket (defaultConfig smtp_env))] \<rparr>) \<and>
   fst (handler (\<lambda>_ _. Some (Error ''connect ECONNREFUSED'')) ''2026-01-01T00:00:00.000Z''
     (defaultConfig smtp_env) ada_ticket empty_world) =
     \<lparr> content =
         \<lparr> status = ''error'', payload_message = ''connect ECONNREFUSED'', ticket = None \<rparr>,
       isError = True \<rparr>"
  using handler_catches [of "\<lambda>_ _. Some (Error ''connect ECONNREFUSED'')" ada_ticket
      "defaultConfig smtp_env" empty_world "Error ''connect ECONNREFUSED''"
      "empty_world \<lparr> sendMail_calls :=
        [(smtp (defaultConfig smtp_env),
          mailOptions ada_ticket (defaultConfig smtp_env))] \<rparr>"
      "''2026-01-01T00:00:00.000Z''" "''connect ECONNREFUSED''"]
  by (simp add: sendSupportEmail_def Let_def example_defs)

text \<open>
  C7: when the dispatcher returns an outcome, the handler's payload has the status ``ok'',
  the outcome's message, and a ticket echo with the submitted name and issue, the submitted
  priority or ``Medium'' when the ticket has none, the submitted category or
  ``General Inquiry'' when the ticket has none, and the time stamp of the server's clock;
  the result is not flagged as an error.
\<close>

theorem handler_success_echo:
  assumes "sendSupportEmail sendMail input config w = (Inr r, w')"
  shows "handler sendMail now config input w =
     (\<lparr> content =
          \<lparr> status = ''ok'',
            payload_message = message r,
            ticket = Some
              \<lparr> ticket_name = input ''name'',
                ticket_issue = input ''issue'',
                ticket_priority = (case input ''priority'' of None \<Rightarrow> ''Medium'' | Some p \<Rightarrow> p),
                ticket_category =
                  (case input ''category'' of None \<Rightarrow> ''General Inquiry'' | Some c \<Rightarrow> c),
                timestamp = now \<rparr> \<rparr>,
        isError = False \<rparr>, w')"
  using assms sendSupportEmail_Inr_success [OF assms]
  by (simp add: handler_def nullish_def)

theorem handler_success_echo_witness:
  "handler (\<lambda>_ _. None) ''2026-01-01T00:00:00.000Z''
     (defaultConfig unset_env) ada_ticket empty_world =
     (\<lparr> content =
          \<lparr> status = ''ok'',
            payload_message =
              ''Ticket recorded (email preview logged ''
                @ [CHR 0xE2, CHR 0x80, CHR 0x94]
                @ '' configure SMTP credentials to enable delivery).'',
            ticket = Some
              \<lparr> ticket_name = Some ''Ada'',
                ticket_issue = Some ''Login broken'',
                ticket_priority = ''Medium'',
                ticket_category = ''General Inquiry'',
                timestamp = ''2026-01-01T00:00:00.000Z'' \<rparr> \<rparr>,
        isError = False \<rparr>,
      snd (sendSupportEmail (\<lambda>_ _. None) ada_ticket
        (defaultConfig unset_env) empty_world))"
  using handler_success_echo [of "\<lambda>_ _. None" ada_ticket
      "defaultConfig unset_env" empty_world
      "\<lparr> success = True,
         message = ''Ticket recorded (email preview logged ''
           @ [CHR 0xE2, CHR 0x80, CHR 0x94]
           @ '' configure SMTP credentials to enable delivery).'' \<rparr>"
      "snd (sendSupportEmail (\<lambda>_ _. None) ada_ticket
        (defaultConfig unset_env) empty_world)"
      "''2026-01-01T00:00:00.000Z''"]
  by (simp add: sendSupportEmail_def Let_def example_defs)

text \<open>
  C10, as stated: a custom field supplied as the empty string is composed exactly as if it
  were absent. It fails for a custom field whose key is the name of a property of
  \<^verbatim>\<open>Object.prototype\<close>: with a custom field keyed \<^verbatim>\<open>constructor\<close>, the empty string gives
  no line, while for the ticket without the key \<^verbatim>\<open>fields[field.key]\<close> is the inherited
  function, which is truthy, and a line is written.
\<close>

theorem empty_string_inherited_key_counterexample:
  "buildEmailBody (ada_ticket (''constructor'' \<mapsto> []))
     ((defaultConfig unset_env)
        \<lparr> customFields :=
            [\<lparr> key = ''constructor'', label = ''Builder'', type = Text, placeholder = [],
               required = False, options = None \<rparr>] \<rparr>) =
     join [CHR 0x0A]
       [''New support ticket received via Customer Support'', [], ''--- Ticket Details ---'', [],
        ''Name: Ada'', ''Issue: Login broken'', [], ''--- End of Ticket ---''] \<and>
   buildEmailBody (ada_ticket (''constructor'' := None))
     ((defaultConfig unset_env)
        \<lparr> customFields :=
            [\<lparr> key = ''constructor'', label = ''Builder'', type = Text, placeholder = [],
               required = False, options = None \<rparr>] \<rparr>) =
     join [CHR 0x0A]
       [''New support ticket received via Customer Support'', [], ''--- Ticket Details ---'', [],
        ''Name: Ada'', ''Issue: Login broken'',
        ''Builder: function Object() { [native code] }'', [], ''--- End of Ticket ---'']"
  by (simp add: buildEmailBody_def Let_def example_defs property_defs truthy_def ToString_def)

text \<open>
  C10, amended: a field supplied as the empty string whose key is not the name of a
  property of \<^verbatim>\<open>Object.prototype\<close> is composed as if it were absent: the loop over the
  custom fields pushes the same lines, and for every such key other than \<^verbatim>\<open>name\<close> and
  \<^verbatim>\<open>issue\<close> (so for \<^verbatim>\<open>priority\<close>, \<^verbatim>\<open>category\<close> and such custom fields) the body is the
  same. The success echo does not apply the default to an empty string: the echoed
  priority (category) is the empty string, not ``Medium'' (``General Inquiry'').
\<close>

theorem empty_string_as_absent:
  "(k \<notin> set Object_prototype_keys \<longrightarrow>
      push_custom_fields (input (k \<mapsto> [])) (customFields config) lines =
        push_custom_fields (input (k := None)) (customFields config) lines) \<and>
   (k \<notin> set Object_prototype_keys \<and> k \<noteq> ''name'' \<and> k \<noteq> ''issue'' \<longrightarrow>
      buildEmailBody (input (k \<mapsto> [])) config = buildEmailBody (input (k := None)) config) \<and>
   (fst (sendSupportEmail sendMail input config w) = Inr r \<and> input ''priority'' = Some []
      \<longrightarrow> map_option ticket_priority (ticket (content (fst (handler sendMail now config input w))))
            = Some []) \<and>
   (fst (sendSupportEmail sendMail input config w) = Inr r \<and> input ''category'' = Some []
      \<longrightarrow> map_option ticket_category (ticket (content (fst (handler sendMail now config input w))))
            = Some [])"
  by (auto simp: buildEmailBody_def Let_def push_custom_fields_empty_value truthy_def
      ToString_def handler_def nullish_def split: prod.splits)

theorem empty_string_as_absent_witness:
  "push_custom_fields (ada_ticket (''email'' \<mapsto> []))
     (customFields (defaultConfig unset_env)) [] =
     push_custom_fields (ada_ticket (''email'' := None))
       (customFields (defaultConfig unset_env)) [] \<and>
   buildEmailBody (ada_ticket (''priority'' \<mapsto> [])) (defaultConfig unset_env) =
     buildEmailBody (ada_ticket (''priority'' := None)) (defaultConfig unset_env) \<and>
   map_option ticket_priority
     (ticket (content (fst (handler (\<lambda>_ _. None) ''2026-01-01T00:00:00.000Z''
        (defaultConfig unset_env)
        (ada_ticket (''priority'' \<mapsto> [], ''category'' \<mapsto> [])) empty_world)))) = Some [] \<and>
   map_option ticket_category
     (ticket (content (fst (handler (\<lambda>_ _. None) ''2026-01-01T00:00:00.000Z''
        (defaultConfig unset_env)
        (ada_ticket (''priority'' \<mapsto> [], ''category'' \<mapsto> [])) empty_world)))) = Some []"
  using
    empty_string_as_absent [of "''email''" ada_ticket "defaultConfig unset_env" "[]"
      "\<lambda>_ _. None" empty_world
      "\<lparr> success = True,
         message = ''Ticket recorded (email preview logged ''
           @ [CHR 0xE2, CHR 0x80, CHR 0x94]
           @ '' configure SMTP credentials to enable delivery).'' \<rparr>"
      "''2026-01-01T00:00:00.000Z''"]
    empty_string_as_absent [of "''priority''" ada_ticket "defaultConfig unset_env" "[]"
      "\<lambda>_ _. None" empty_world
      "\<lparr> success = True,
         message = ''Ticket recorded (email preview logged ''
           @ [CHR 0xE2, CHR 0x80, CHR 0x94]
           @ '' configure SMTP credentials to enable delivery).'' \<rparr>"
      "''2026-01-01T00:00:00.000Z''"]
    empty_string_as_absent [of "''category''"
      "ada_ticket (''priority'' \<mapsto> [], ''category'' \<mapsto> [])"
      "defaultConfig unset_env" "[]" "\<lambda>_ _. None" empty_world
      "\<lparr> success = True,
         message = ''Ticket recorded (email preview logged ''
           @ [CHR 0xE2, CHR 0x80, CHR 0x94]
           @ '' configure SMTP credentials to enable delivery).'' \<rparr>"
      "''2026-01-01T00:00:00.000Z''"]
  by (simp add: sendSupportEmail_def Let_def example_defs Object_prototype_keys_def)

section \<open>Channel isolation (C9)\<close>

text \<open>
  C9 requires that the preview of the unconfigured path is never written to the channel
  that carries the protocol responses. The preview is written with \<^verbatim>\<open>console.log\<close>, that
  is to the standard output of the process, which is the protocol channel when the server
  runs over the stdio transport: for the ticket of Ada and the default configuration, the
  five preview lines are on that channel.
\<close>

theorem preview_on_stdio_protocol_channel:
  "written_to (protocol_channel Stdio)
     (snd (handler (\<lambda>_ _. None) ''2026-01-01T00:00:00.000Z''
        (defaultConfig unset_env) ada_ticket empty_world)) =
     [''=== EMAIL PREVIEW (SMTP not configured) ==='',
      ''To: support@example.com'',
      ''Subject: Support Request from Ada: Login broken'',
      join [CHR 0x0A]
        [''New support ticket received via Customer Support'', [], ''--- Ticket Details ---'',
         [], ''Name: Ada'', ''Issue: Login broken'', [], ''--- End of Ticket ---''],
      ''============================================'']"
  by (simp add: handler_def sendSupportEmail_def Let_def console_log_def written_to_def
      emailSubject_def replace_def ToString_def buildEmailBody_def truthy_def example_defs
      property_defs)

end
